theory Spec2Isabelle
  imports Complex_Main
begin

section \<open>Spans\<close>

text \<open>
  \<^verbatim>\<open>RecognizerResult\<close> of the presidio library is used by both scripts as a plain
  value holder with four fields. Offsets are Python integers (those taken from the
  external response may be negative), scores are floats that are only copied and
  compared, never computed with, so they are read as real numbers. The field
  \<^verbatim>\<open>end\<close> is written \<open>end'\<close>.
\<close>

record RecognizerResult =
  entity_type :: string
  start :: int
  end' :: int
  score :: real

section \<open>The merge loop of the hybrid PERSON recognizer (try.py, lines 70-80)\<close>

text \<open>
  \<^verbatim>\<open>
  results.sort(key=lambda x: x.start)
  merged_results = []
  for result in results:
      if not merged_results or result.start > merged_results[-1].end:
          merged_results.append(result)
      else:
          merged_results[-1].end = max(merged_results[-1].end, result.end)
          merged_results[-1].score = max(merged_results[-1].score, result.score)
  return merged_results
  \<close>
  \<^verbatim>\<open>list.sort\<close> is stable, as \<open>sort_key\<close> is. The loop body is \<open>merge_step\<close>; the
  in-place update of the last element keeps its category and its start.
\<close>

definition merge_step :: "RecognizerResult list \<Rightarrow> RecognizerResult \<Rightarrow> RecognizerResult list" where
  "merge_step merged_results result =
     (if merged_results = [] \<or> start result > end' (last merged_results)
      then merged_results @ [result]
      else butlast merged_results @
           [(last merged_results)
              \<lparr> end' := max (end' (last merged_results)) (end' result),
                score := max (score (last merged_results)) (score result) \<rparr>])"

definition merge_loop :: "RecognizerResult list \<Rightarrow> RecognizerResult list" where
  "merge_loop results = foldl merge_step [] results"

definition merge_overlapping :: "RecognizerResult list \<Rightarrow> RecognizerResult list" where
  "merge_overlapping results = merge_loop (sort_key start results)"

text \<open>
  The invariant of a resolved span set as the specification writes it
  (\<^verbatim>\<open>resolved[i].end <= resolved[i+1].start\<close>), and its strict form.
\<close>

definition non_overlapping :: "RecognizerResult list \<Rightarrow> bool" where
  "non_overlapping rs = successively (\<lambda>a b. end' a \<le> start b) rs"

definition separated :: "RecognizerResult list \<Rightarrow> bool" where
  "separated rs = successively (\<lambda>a b. end' a < start b) rs"

section \<open>Characters\<close>

text \<open>
  A text is a \<open>string\<close>: a list of 8-bit characters, read as the code points 0..255
  of a Python \<^verbatim>\<open>str\<close>, so that offsets count characters as Python does. Texts with code
  points above 255 are outside this development. The classes are those of the \<^verbatim>\<open>re\<close>
  module for \<^verbatim>\<open>str\<close> patterns on that range, given on the code points: \<^verbatim>\<open>\d\<close> is
  0-9, \<^verbatim>\<open>\s\<close> is what \<^verbatim>\<open>str.isspace\<close> accepts, \<^verbatim>\<open>\w\<close> is alphanumeric or
  underscore.
\<close>

definition code :: "char \<Rightarrow> nat" where
  "code c = of_char c"

definition digit_code :: "nat \<Rightarrow> bool" where
  "digit_code n = (48 \<le> n \<and> n \<le> 57)"

definition space_code :: "nat \<Rightarrow> bool" where
  "space_code n = (n \<in> {9, 10, 11, 12, 13, 28, 29, 30, 31, 32, 133, 160})"

definition word_code :: "nat \<Rightarrow> bool" where
  "word_code n = (digit_code n \<or> (65 \<le> n \<and> n \<le> 90) \<or> (97 \<le> n \<and> n \<le> 122) \<or> n = 95 \<or>
     n \<in> {170, 178, 179, 181, 185, 186, 188, 189, 190} \<or>
     (192 \<le> n \<and> n \<noteq> 215 \<and> n \<noteq> 247))"

definition is_space :: "char \<Rightarrow> bool" where
  "is_space c = space_code (code c)"

text \<open>The code of the other case of an ASCII letter, for \<^verbatim>\<open>re.IGNORECASE\<close>.\<close>

definition swapcase :: "nat \<Rightarrow> nat" where
  "swapcase n = (if 65 \<le> n \<and> n \<le> 90 then n + 32
                 else if 97 \<le> n \<and> n \<le> 122 then n - 32 else n)"

section \<open>Regular expressions as the \<^verbatim>\<open>re\<close> module matches them\<close>

text \<open>
  A character class is a list of items: a character, a range, \<^verbatim>\<open>\d\<close> or \<^verbatim>\<open>\s\<close>, kept
  by their code points. The patterns of the two scripts use literals, classes, \<^verbatim>\<open>\b\<close>, groups,
  alternation, the greedy quantifiers \<^verbatim>\<open>? * + {n} {n,}\<close> and one negative lookahead.
  \<open>Rep lo hi r\<close> is \<^verbatim>\<open>r{lo,hi}\<close> (\<open>None\<close> for no upper bound), \<open>Grp n r\<close> is the
  capturing group number \<open>n\<close>, \<open>NLook r\<close> is \<^verbatim>\<open>(?!r)\<close>; a non-capturing group needs
  no constructor.
\<close>

datatype citem = Code nat | Range nat nat | Digit | Space

definition Ch :: "char \<Rightarrow> citem" where
  "Ch c = Code (code c)"

definition Rng :: "char \<Rightarrow> char \<Rightarrow> citem" where
  "Rng lo hi = Range (code lo) (code hi)"

fun in_item :: "nat \<Rightarrow> citem \<Rightarrow> bool" where
  "in_item n (Code d) = (n = d)"
| "in_item n (Range lo hi) = (lo \<le> n \<and> n \<le> hi)"
| "in_item n Digit = digit_code n"
| "in_item n Space = space_code n"

definition in_class :: "bool \<Rightarrow> citem list \<Rightarrow> nat \<Rightarrow> bool" where
  "in_class ic items n =
     (list_ex (in_item n) items \<or> (ic \<and> list_ex (in_item (swapcase n)) items))"

datatype regex =
    Cls "citem list"
  | WordB
  | Cat "regex list"
  | Alt "regex list"
  | Rep nat "nat option" regex
  | Grp nat regex
  | NLook regex

text \<open>
  The matcher is the backtracking search of \<^verbatim>\<open>re\<close>, written with continuations: a
  matcher gets an offset into the text (the list \<open>t\<close> of its code points, of length
  \<open>n\<close>), the groups
  closed so far (the most recent first) and what has to match after it. Alternatives are
  tried from left to right, quantifiers take as many iterations as they can and give
  them back one by one. An optional iteration that consumes nothing is not repeated;
  since every further iteration consumes a character, the length of the rest bounds the
  iterations of an unbounded quantifier.
\<close>

type_synonym caps = "(nat \<times> nat \<times> nat) list"
type_synonym outcome = "(nat \<times> caps) option"
type_synonym kont = "nat \<Rightarrow> caps \<Rightarrow> outcome"
type_synonym matcher = "nat \<Rightarrow> caps \<Rightarrow> kont \<Rightarrow> outcome"

fun char_at :: "nat list \<Rightarrow> nat \<Rightarrow> nat option" where
  "char_at [] p = None"
| "char_at (c # t) 0 = Some c"
| "char_at (c # t) (Suc p) = char_at t p"

definition word_at :: "nat list \<Rightarrow> nat \<Rightarrow> bool" where
  "word_at t p = (case char_at t p of None \<Rightarrow> False | Some c \<Rightarrow> word_code c)"

text \<open>\<^verbatim>\<open>\b\<close>: exactly one of the characters before and after the offset is a word character.\<close>

definition at_boundary :: "nat list \<Rightarrow> nat \<Rightarrow> bool" where
  "at_boundary t p = ((0 < p \<and> word_at t (p - 1)) \<noteq> word_at t p)"

fun rep_min :: "nat \<Rightarrow> matcher \<Rightarrow> matcher" where
  "rep_min 0 m p cs k = k p cs"
| "rep_min (Suc n) m p cs k = m p cs (\<lambda>p' cs'. rep_min n m p' cs' k)"

fun rep_max :: "nat \<Rightarrow> matcher \<Rightarrow> matcher" where
  "rep_max 0 m p cs k = k p cs"
| "rep_max (Suc n) m p cs k =
     (case m p cs (\<lambda>p' cs'. if p' = p then None else rep_max n m p' cs' k) of
        Some r \<Rightarrow> Some r
      | None \<Rightarrow> k p cs)"

fun seq_all :: "matcher list \<Rightarrow> matcher" where
  "seq_all [] p cs k = k p cs"
| "seq_all (m # ms) p cs k = m p cs (\<lambda>p' cs'. seq_all ms p' cs' k)"

fun first_of :: "matcher list \<Rightarrow> matcher" where
  "first_of [] p cs k = None"
| "first_of (m # ms) p cs k =
     (case m p cs k of Some r \<Rightarrow> Some r | None \<Rightarrow> first_of ms p cs k)"

primrec rmatch :: "bool \<Rightarrow> nat list \<Rightarrow> nat \<Rightarrow> regex \<Rightarrow> matcher" where
  "rmatch ic t n (Cls items) = (\<lambda>p cs k.
     case char_at t p of
       None \<Rightarrow> None
     | Some c \<Rightarrow> if in_class ic items c then k (p + 1) cs else None)"
| "rmatch ic t n WordB = (\<lambda>p cs k. if at_boundary t p then k p cs else None)"
| "rmatch ic t n (Cat rs) = seq_all (map (rmatch ic t n) rs)"
| "rmatch ic t n (Alt rs) = first_of (map (rmatch ic t n) rs)"
| "rmatch ic t n (Rep lo hi r) = (\<lambda>p cs k.
     rep_min lo (rmatch ic t n r) p cs (\<lambda>p' cs'.
       rep_max (case hi of None \<Rightarrow> n - p' | Some h \<Rightarrow> h - lo) (rmatch ic t n r) p' cs' k))"
| "rmatch ic t n (Grp g r) = (\<lambda>p cs k.
     rmatch ic t n r p cs (\<lambda>p' cs'. k p' ((g, p, p') # cs')))"
| "rmatch ic t n (NLook r) = (\<lambda>p cs k.
     case rmatch ic t n r p cs (\<lambda>p' cs'. Some (p', cs')) of
       Some _ \<Rightarrow> None
     | None \<Rightarrow> k p cs)"

text \<open>
  \<^verbatim>\<open>re.finditer\<close>: the matches from left to right, none starting inside an earlier one.
  A match is (start, end, groups). After an empty match the search is repeated at the
  same offset for a match that is not empty, then moves on. In \<open>scan\<close>, \<open>nxt\<close> is the
  end of the last match: no match starts before it.
\<close>

type_synonym rmatch = "nat \<times> nat \<times> caps"

definition match_at :: "bool \<Rightarrow> nat list \<Rightarrow> nat \<Rightarrow> regex \<Rightarrow> bool \<Rightarrow> nat \<Rightarrow> outcome" where
  "match_at ic t n r must_advance p =
     rmatch ic t n r p [] (\<lambda>p' cs. if must_advance \<and> p' = p then None else Some (p', cs))"

definition matches_here :: "bool \<Rightarrow> nat list \<Rightarrow> nat \<Rightarrow> regex \<Rightarrow> nat \<Rightarrow> rmatch list" where
  "matches_here ic t n r p =
     (case match_at ic t n r False p of
        None \<Rightarrow> []
      | Some (e, cs) \<Rightarrow>
          if p < e then [(p, e, cs)]
          else (p, e, cs) #
               (case match_at ic t n r True p of
                  None \<Rightarrow> []
                | Some (e', cs') \<Rightarrow> [(p, e', cs')]))"

definition search_here :: "bool \<Rightarrow> nat list \<Rightarrow> nat \<Rightarrow> regex \<Rightarrow> nat \<Rightarrow> nat \<Rightarrow> rmatch list" where
  "search_here ic t n r nxt p = (if p < nxt then [] else matches_here ic t n r p)"

function scan :: "bool \<Rightarrow> nat list \<Rightarrow> nat \<Rightarrow> regex \<Rightarrow> nat \<Rightarrow> nat \<Rightarrow> rmatch list" where
  "scan ic t n r nxt p =
     (if n < p then []
      else case search_here ic t n r nxt p of
             [] \<Rightarrow> scan ic t n r nxt (p + 1)
           | m # ms \<Rightarrow> (m # ms) @ scan ic t n r (fst (snd (last (m # ms)))) (p + 1))"
  by pat_completeness auto
termination
  by (relation "measure (\<lambda>(ic, t, n, r, nxt, p). Suc n - p)") auto

definition finditer :: "bool \<Rightarrow> regex \<Rightarrow> string \<Rightarrow> rmatch list" where
  "finditer ic r text = scan ic (map code text) (length text) r 0 0"

subsection \<open>Writing patterns\<close>

definition lit :: "string \<Rightarrow> regex" where
  "lit s = Cat (map (\<lambda>c. Cls [Ch c]) s)"

definition opt :: "regex \<Rightarrow> regex" where
  "opt r = Rep 0 (Some 1) r"

definition many :: "regex \<Rightarrow> regex" where
  "many r = Rep 0 None r"

definition many1 :: "regex \<Rightarrow> regex" where
  "many1 r = Rep 1 None r"

definition exactly :: "nat \<Rightarrow> regex \<Rightarrow> regex" where
  "exactly n r = Rep n (Some n) r"

definition digit :: regex where
  "digit = Cls [Digit]"

definition space :: regex where
  "space = Cls [Space]"

definition upper :: regex where
  "upper = Cls [Rng CHR ''A'' CHR ''Z'']"

definition lower :: regex where
  "lower = Cls [Rng CHR ''a'' CHR ''z'']"

definition letter :: regex where
  "letter = Cls [Rng CHR ''A'' CHR ''Z'', Rng CHR ''a'' CHR ''z'']"

text \<open>\<^verbatim>\<open>[-\s]?\<close>, the optional separator of the phone patterns.\<close>

definition phone_sep :: regex where
  "phone_sep = opt (Cls [Ch CHR ''-'', Space])"

section \<open>The patterns of the recognizers\<close>

text \<open>
  \<^verbatim>\<open>PhoneNumberRecognizer.patterns\<close>, the same in both scripts:
  \<^verbatim>\<open>
  \+31\d{9}\b
  \+31\s?\d{2}\s?\d{7}\b
  0\d{9}\b
  0\d{2}[-\s]?\d{7}\b
  0\d{3}[-\s]?\d{6}\b
  \b\d{2}[-\s]?\d{2}[-\s]?\d{2}[-\s]?\d{2}[-\s]?\d{2}\b
  \<close>
\<close>

definition phone_patterns :: "regex list" where
  "phone_patterns =
    [Cat [lit ''+31'', exactly 9 digit, WordB],
     Cat [lit ''+31'', opt space, exactly 2 digit, opt space, exactly 7 digit, WordB],
     Cat [lit ''0'', exactly 9 digit, WordB],
     Cat [lit ''0'', exactly 2 digit, phone_sep, exactly 7 digit, WordB],
     Cat [lit ''0'', exactly 3 digit, phone_sep, exactly 6 digit, WordB],
     Cat [WordB, exactly 2 digit, phone_sep, exactly 2 digit, phone_sep, exactly 2 digit, phone_sep, exactly 2 digit, phone_sep,
          exactly 2 digit, WordB]]"

text \<open>\<^verbatim>\<open>\b\d{4}\s?[A-Za-z]{2}\b|\b\d{4}-[A-Za-z]{2}\b\<close>\<close>

definition postal_pattern :: regex where
  "postal_pattern =
     Alt [Cat [WordB, exactly 4 digit, opt space, exactly 2 letter, WordB],
          Cat [WordB, exactly 4 digit, lit ''-'', exactly 2 letter, WordB]]"

text \<open>\<^verbatim>\<open>\b[A-Za-z0-9._%+-]+@[A-Za-z0-9.-]+\.[A-Z|a-z]{2,}\b\<close>\<close>

definition email_pattern :: regex where
  "email_pattern =
     Cat [WordB,
          many1 (Cls [Rng CHR ''A'' CHR ''Z'', Rng CHR ''a'' CHR ''z'', Rng CHR ''0'' CHR ''9'',
                     Ch CHR ''.'', Ch CHR ''_'', Ch CHR ''%'', Ch CHR ''+'', Ch CHR ''-'']),
          lit ''@'',
          many1 (Cls [Rng CHR ''A'' CHR ''Z'', Rng CHR ''a'' CHR ''z'', Rng CHR ''0'' CHR ''9'',
                     Ch CHR ''.'', Ch CHR ''-'']),
          lit ''.'',
          Rep 2 None (Cls [Rng CHR ''A'' CHR ''Z'', Ch CHR ''|'', Rng CHR ''a'' CHR ''z'']),
          WordB]"

text \<open>\<^verbatim>\<open>\b[A-Z][a-z]+(?:straat|weg|laan|plein|singel|kade|gracht)\s+\d+[a-zA-Z]?\b\<close>\<close>

definition address_pattern :: regex where
  "address_pattern =
     Cat [WordB, upper, many1 lower,
          Alt [lit ''straat'', lit ''weg'', lit ''laan'', lit ''plein'', lit ''singel'',
               lit ''kade'', lit ''gracht''],
          many1 space, many1 digit, opt (Cls [Rng CHR ''a'' CHR ''z'', Rng CHR ''A'' CHR ''Z'']),
          WordB]"

text \<open>
  The PERSON pattern of anon.py:
  \<^verbatim>\<open>\b(?!(?:Mijn|Je)\b)(?:[A-Z][a-z]+(?:\s+(?:van|de|der|den|van der|van de|van den))?\s+)*[A-Z][a-z]+\b\<close>
\<close>

definition person_pattern :: regex where
  "person_pattern =
     Cat [WordB,
          NLook (Cat [Alt [lit ''Mijn'', lit ''Je''], WordB]),
          many (Cat [upper, many1 lower,
                     opt (Cat [many1 space,
                               Alt [lit ''van'', lit ''de'', lit ''der'', lit ''den'',
                                    lit ''van der'', lit ''van de'', lit ''van den'']]),
                     many1 space]),
          upper, many1 lower, WordB]"

text \<open>
  \<^verbatim>\<open>name_indicators\<close> of try.py. Each pattern contains the name
  \<^verbatim>\<open>[A-Z][a-z]+(?:\s+[A-Z][a-z]+)*\<close>:
  \<^verbatim>\<open>
  \b(Mr\.|Mrs\.|Ms\.|Dr\.)\s+(NAME)
  \b(meneer|mevrouw|dokter)\s+(NAME)
  \b(NAME)\s+(zei|vertelde|sprak|belt)
  (sprak|praatte|overlegde|belde) met\s+(NAME)
  \bik\s+ben\s+(NAME)
  \bhij\s+heet\s+(NAME)
  \bzij\s+heet\s+(NAME)
  \bmet\s+(NAME)\s+gesproken
  \b(NAME)\s+heeft\s+(?:geen|wel)
  \bwaarom\s+(NAME)\s+geen
  \bkan\s+(NAME)\s+niet
  \b(NAME)\s+kan\s+niet
  \<close>
\<close>

definition name_pattern :: regex where
  "name_pattern = Cat [upper, many1 lower, many (Cat [many1 space, upper, many1 lower])]"

definition name_indicators :: "regex list" where
  "name_indicators =
    [Cat [WordB, Grp 1 (Alt [lit ''Mr.'', lit ''Mrs.'', lit ''Ms.'', lit ''Dr.'']), many1 space,
          Grp 2 name_pattern],
     Cat [WordB, Grp 1 (Alt [lit ''meneer'', lit ''mevrouw'', lit ''dokter'']), many1 space,
          Grp 2 name_pattern],
     Cat [WordB, Grp 1 name_pattern, many1 space,
          Grp 2 (Alt [lit ''zei'', lit ''vertelde'', lit ''sprak'', lit ''belt''])],
     Cat [Grp 1 (Alt [lit ''sprak'', lit ''praatte'', lit ''overlegde'', lit ''belde'']),
          lit '' met'', many1 space, Grp 2 name_pattern],
     Cat [WordB, lit ''ik'', many1 space, lit ''ben'', many1 space, Grp 1 name_pattern],
     Cat [WordB, lit ''hij'', many1 space, lit ''heet'', many1 space, Grp 1 name_pattern],
     Cat [WordB, lit ''zij'', many1 space, lit ''heet'', many1 space, Grp 1 name_pattern],
     Cat [WordB, lit ''met'', many1 space, Grp 1 name_pattern, many1 space, lit ''gesproken''],
     Cat [WordB, Grp 1 name_pattern, many1 space, lit ''heeft'', many1 space,
          Alt [lit ''geen'', lit ''wel'']],
     Cat [WordB, lit ''waarom'', many1 space, Grp 1 name_pattern, many1 space, lit ''geen''],
     Cat [WordB, lit ''kan'', many1 space, Grp 1 name_pattern, many1 space, lit ''niet''],
     Cat [WordB, Grp 1 name_pattern, many1 space, lit ''kan'', many1 space, lit ''niet'']]"

section \<open>Exceptions and the external inference call\<close>

text \<open>
  The exceptions that can leave the functions below. \<^verbatim>\<open>SystemExit\<close> and
  \<^verbatim>\<open>KeyboardInterrupt\<close> derive from \<^verbatim>\<open>BaseException\<close> only, so that
  \<^verbatim>\<open>except Exception\<close> does not catch them.
\<close>

datatype exc =
    ConnectionError | SyntaxError | NameError | JSONDecodeError | IndexError | TypeError
  | KeyError | SystemExit | KeyboardInterrupt

definition is_Exception :: "exc \<Rightarrow> bool" where
  "is_Exception e = (e \<noteq> SystemExit \<and> e \<noteq> KeyboardInterrupt)"

text \<open>
  The world outside the process is an input of the model. \<^verbatim>\<open>requests.post\<close> either
  raises (\<open>Raised\<close>, a \<^verbatim>\<open>ConnectionError\<close> when the service is unreachable) or returns
  a response with a status code. Line 59, \<^verbatim>\<open>names = eval(response.json()['response'])\<close>,
  hands the text of the response to the Python interpreter: what comes back is whatever
  that text computes, a value or an exception of any class. A value is read as the list
  of its elements; an element is a dict with integer \<^verbatim>\<open>start\<close> and \<^verbatim>\<open>end\<close> and
  perhaps a \<^verbatim>\<open>confidence\<close>, or anything else (\<open>Malformed\<close>: subscripting it raises
  \<^verbatim>\<open>TypeError\<close> or \<^verbatim>\<open>KeyError\<close>). A value that cannot be iterated raises
  \<^verbatim>\<open>TypeError\<close> at line 60 before any span is added, which is \<open>Raises TypeError\<close>.
  Offsets and confidences of other Python types are outside this development.
\<close>

datatype candidate = Candidate int int "real option" | Malformed

datatype eval_outcome = Value "candidate list" | Raises exc

datatype post_outcome = Raised exc | Response nat eval_outcome

section \<open>The recognizers\<close>

text \<open>
  \<^verbatim>\<open>CustomRecognizer.analyze\<close>, \<^verbatim>\<open>PhoneNumberRecognizer.analyze\<close> and
  \<^verbatim>\<open>PostalCodeRecognizer.analyze\<close>, the same in both scripts: one span per match, from
  \<^verbatim>\<open>match.start()\<close> to \<^verbatim>\<open>match.end()\<close>, at score 0.85.
\<close>

definition match_result :: "string \<Rightarrow> rmatch \<Rightarrow> RecognizerResult" where
  "match_result nm m = (case m of (s, e, cs) \<Rightarrow>
     \<lparr>entity_type = nm, start = int s, end' = int e, score = 85 / 100\<rparr>)"

definition CustomRecognizer_analyze :: "string \<Rightarrow> regex \<Rightarrow> string \<Rightarrow> RecognizerResult list" where
  "CustomRecognizer_analyze nm pattern text = map (match_result nm) (finditer False pattern text)"

definition PhoneNumberRecognizer_analyze :: "string \<Rightarrow> RecognizerResult list" where
  "PhoneNumberRecognizer_analyze text =
     concat (map (\<lambda>pattern. map (match_result ''PHONE_NUMBER'') (finditer False pattern text))
                 phone_patterns)"

definition PostalCodeRecognizer_analyze :: "string \<Rightarrow> RecognizerResult list" where
  "PostalCodeRecognizer_analyze text =
     map (match_result ''POSTAL_CODE'') (finditer False postal_pattern text)"

subsection \<open>\<^verbatim>\<open>PrecisionImprovedHybridPersonRecognizer.analyze\<close> (try.py, lines 27-80)\<close>

text \<open>
  Lines 31-40. \<^verbatim>\<open>match.groups()[-1]\<close> is the group with the highest number
  (\<^verbatim>\<open>IndexError\<close> for a pattern without groups, \<^verbatim>\<open>None\<close> when that group took no
  part in the match), \<^verbatim>\<open>match.lastindex\<close> is the group that was closed last
  (\<^verbatim>\<open>match.start(None)\<close> raises \<^verbatim>\<open>IndexError\<close>), \<^verbatim>\<open>len(None)\<close> raises
  \<^verbatim>\<open>TypeError\<close>.
\<close>

primrec group_numbers :: "regex \<Rightarrow> nat list" where
  "group_numbers (Cls items) = []"
| "group_numbers WordB = []"
| "group_numbers (Cat rs) = concat (map group_numbers rs)"
| "group_numbers (Alt rs) = concat (map group_numbers rs)"
| "group_numbers (Rep lo hi r) = group_numbers r"
| "group_numbers (Grp n r) = n # group_numbers r"
| "group_numbers (NLook r) = group_numbers r"

definition rule_result :: "regex \<Rightarrow> rmatch \<Rightarrow> exc + RecognizerResult" where
  "rule_result pattern m = (case m of (s, e, cs) \<Rightarrow>
     (if group_numbers pattern = [] then Inl IndexError
      else case cs of
        [] \<Rightarrow> Inl IndexError
      | (lastindex, ls, le) # _ \<Rightarrow>
          (case map_of cs (foldr max (group_numbers pattern) 0) of
             None \<Rightarrow> Inl TypeError
           | Some (ns, ne) \<Rightarrow>
               Inr \<lparr>entity_type = ''PERSON'', start = int ls,
                    end' = int ls + int (ne - ns), score = 7 / 10\<rparr>)))"

text \<open>The first exception ends a loop; without one, the results are collected in order.\<close>

fun collect :: "(exc + 'a) list \<Rightarrow> exc + 'a list" where
  "collect [] = Inr []"
| "collect (Inl e # xs) = Inl e"
| "collect (Inr x # xs) = (case collect xs of Inl e \<Rightarrow> Inl e | Inr ys \<Rightarrow> Inr (x # ys))"

definition rule_results :: "string \<Rightarrow> exc + RecognizerResult list" where
  "rule_results text =
     collect (concat (map (\<lambda>pattern. map (rule_result pattern) (finditer True pattern text))
                          name_indicators))"

text \<open>
  Lines 60-66 inside the \<^verbatim>\<open>try\<close>: the spans of the elements before the first
  malformed one have been appended when its exception is caught.
\<close>

fun append_names :: "candidate list \<Rightarrow> RecognizerResult list \<Rightarrow> RecognizerResult list" where
  "append_names [] results = results"
| "append_names (Candidate s e conf # names) results =
     append_names names
       (results @ [\<lparr>entity_type = ''PERSON'', start = s, end' = e,
                    score = (case conf of None \<Rightarrow> 8 / 10 | Some c \<Rightarrow> c)\<rparr>])"
| "append_names (Malformed # names) results = results"

text \<open>
  Lines 51-68. The call of \<^verbatim>\<open>requests.post\<close> stands outside the \<^verbatim>\<open>try\<close>; the
  \<^verbatim>\<open>except Exception\<close> covers lines 59-66 only.
\<close>

definition with_ollama :: "post_outcome \<Rightarrow> RecognizerResult list \<Rightarrow> exc + RecognizerResult list" where
  "with_ollama response results =
     (case response of
        Raised e \<Rightarrow> Inl e
      | Response status_code body \<Rightarrow>
          if status_code = 200 then
            (case body of
               Raises e \<Rightarrow> if is_Exception e then Inr results else Inl e
             | Value names \<Rightarrow> Inr (append_names names results))
          else Inr results)"

definition Hybrid_analyze :: "post_outcome \<Rightarrow> string \<Rightarrow> exc + RecognizerResult list" where
  "Hybrid_analyze response text =
     (case rule_results text of
        Inl e \<Rightarrow> Inl e
      | Inr results \<Rightarrow>
          (case with_ollama response results of
             Inl e \<Rightarrow> Inl e
           | Inr results' \<Rightarrow> Inr (merge_overlapping results')))"

section \<open>The pipeline of anon.py\<close>

definition anon_recognizers :: "(string \<Rightarrow> RecognizerResult list) list" where
  "anon_recognizers =
    [CustomRecognizer_analyze ''PERSON'' person_pattern,
     CustomRecognizer_analyze ''EMAIL_ADDRESS'' email_pattern,
     CustomRecognizer_analyze ''ADDRESS'' address_pattern,
     PhoneNumberRecognizer_analyze,
     PostalCodeRecognizer_analyze]"

text \<open>\<^verbatim>\<open>CustomAnalyzer.analyze\<close>; \<^verbatim>\<open>sorted\<close> is stable.\<close>

definition anon_analyze :: "string \<Rightarrow> RecognizerResult list" where
  "anon_analyze text = sort_key start (concat (map (\<lambda>recognizer. recognizer text) anon_recognizers))"

definition operators :: "string \<rightharpoonup> string" where
  "operators = map_of
    [(''PERSON'', ''<PERSOON>''),
     (''EMAIL_ADDRESS'', ''<E-MAIL>''),
     (''ADDRESS'', ''<ADRES>''),
     (''PHONE_NUMBER'', ''<TELEFOON>''),
     (''POSTAL_CODE'', ''<POSTCODE>'')]"

text \<open>
  \<^verbatim>\<open>str.strip()\<close> and \<^verbatim>\<open>re.sub(r'\s+', ' ', t)\<close>: every maximal run of whitespace
  becomes one space (of a run, all characters but the last are dropped and the last
  one is written as a space).
\<close>

definition strip :: "string \<Rightarrow> string" where
  "strip t = rev (dropWhile is_space (rev (dropWhile is_space t)))"

fun collapse_ws :: "string \<Rightarrow> string" where
  "collapse_ws [] = []"
| "collapse_ws [c] = (if is_space c then [CHR '' ''] else [c])"
| "collapse_ws (c # d # t) =
     (if is_space c then (if is_space d then collapse_ws (d # t) else CHR '' '' # collapse_ws (d # t))
      else c # collapse_ws (d # t))"

text \<open>
  \<^verbatim>\<open>AnonymizerEngine.anonymize\<close> belongs to the presidio library, not to this
  repository: \<open>anonymize_text\<close> takes it as the parameter \<open>engine\<close> (text, spans and
  operators in, a text or an exception out).
\<close>

type_synonym engine = "string \<Rightarrow> RecognizerResult list \<Rightarrow> (string \<rightharpoonup> string) \<Rightarrow> exc + string"

definition anon_anonymize_text :: "engine \<Rightarrow> string \<Rightarrow> exc + string" where
  "anon_anonymize_text anonymize text =
     (case anonymize text (anon_analyze text) operators of
        Inl e \<Rightarrow> Inl e
      | Inr anonymized \<Rightarrow> Inr (strip (collapse_ws anonymized)))"

section \<open>The pipeline of try.py\<close>

definition try_recognizers :: "post_outcome \<Rightarrow> (string \<Rightarrow> exc + RecognizerResult list) list" where
  "try_recognizers response =
    [Hybrid_analyze response,
     \<lambda>text. Inr (CustomRecognizer_analyze ''EMAIL_ADDRESS'' email_pattern text),
     \<lambda>text. Inr (CustomRecognizer_analyze ''ADDRESS'' address_pattern text),
     \<lambda>text. Inr (PhoneNumberRecognizer_analyze text),
     \<lambda>text. Inr (PostalCodeRecognizer_analyze text)]"

definition try_analyze :: "post_outcome \<Rightarrow> string \<Rightarrow> exc + RecognizerResult list" where
  "try_analyze response text =
     (case collect (map (\<lambda>recognizer. recognizer text) (try_recognizers response)) of
        Inl e \<Rightarrow> Inl e
      | Inr results \<Rightarrow> Inr (sort_key start (concat results)))"

definition preprocess_text :: "string \<Rightarrow> string" where
  "preprocess_text text = collapse_ws (strip text)"

definition detect_sensitive_info :: "post_outcome \<Rightarrow> string \<Rightarrow> exc + (string \<times> int \<times> int) list" where
  "detect_sensitive_info response text =
     (case try_analyze response text of
        Inl e \<Rightarrow> Inl e
      | Inr results \<Rightarrow> Inr (map (\<lambda>result. (entity_type result, start result, end' result)) results))"

text \<open>Lines 169-174: what \<open>try_anonymize_text\<close> hands to the engine.\<close>

definition analyzer_results :: "(string \<times> int \<times> int) list \<Rightarrow> RecognizerResult list" where
  "analyzer_results entities =
     map (\<lambda>(entity_type, start, end).
            \<lparr>entity_type = entity_type, start = start, end' = end, score = 85 / 100\<rparr>) entities"

definition rewriter_input :: "post_outcome \<Rightarrow> string \<Rightarrow> exc + RecognizerResult list" where
  "rewriter_input response text =
     (case detect_sensitive_info response (preprocess_text text) of
        Inl e \<Rightarrow> Inl e
      | Inr entities \<Rightarrow> Inr (analyzer_results entities))"

definition try_anonymize_text :: "engine \<Rightarrow> post_outcome \<Rightarrow> string \<Rightarrow> exc + string" where
  "try_anonymize_text anonymize response text =
     (case rewriter_input response text of
        Inl e \<Rightarrow> Inl e
      | Inr results \<Rightarrow> anonymize (preprocess_text text) results operators)"

section \<open>The anonymizer engine\<close>

text \<open>
  Modelled from the spec: the registration order of the detectors, which section 4.3
  uses to break ties between categories. It is the order of \<^verbatim>\<open>self.recognizers\<close> in
  both scripts.
\<close>

definition registration :: "string list" where
  "registration = [''PERSON'', ''EMAIL_ADDRESS'', ''ADDRESS'', ''PHONE_NUMBER'', ''POSTAL_CODE'']"

definition rank :: "string \<Rightarrow> nat" where
  "rank category = length (takeWhile (\<lambda>c. c \<noteq> category) registration)"

text \<open>
  Modelled from the spec: the category that survives a merge (section 4.3, step 3), that
  of the contributing span with the highest score, ties broken by the earliest
  registration. The call \<^verbatim>\<open>AnonymizerEngine.anonymize\<close> is code of the presidio
  library and is absent from the sources.
\<close>

definition surviving :: "RecognizerResult \<Rightarrow> RecognizerResult \<Rightarrow> string" where
  "surviving current s =
     (if score current < score s then entity_type s
      else if score s < score current then entity_type current
      else if rank (entity_type s) < rank (entity_type current) then entity_type s
      else entity_type current)"

text \<open>
  Modelled from the spec: the Conflict Resolver (section 4.3), one sweep over the spans
  in the order of the Aggregator, which \<^verbatim>\<open>AnonymizerEngine.anonymize\<close> has to do in the
  place of the absent resolver stage.
\<close>

definition resolve_step :: "RecognizerResult list \<Rightarrow> RecognizerResult \<Rightarrow> RecognizerResult list" where
  "resolve_step resolved s =
     (if resolved = [] \<or> start s > end' (last resolved)
      then resolved @ [s]
      else butlast resolved @
           [(last resolved)
              \<lparr> entity_type := surviving (last resolved) s,
                end' := max (end' (last resolved)) (end' s),
                score := max (score (last resolved)) (score s) \<rparr>])"

definition resolve :: "RecognizerResult list \<Rightarrow> RecognizerResult list" where
  "resolve results = foldl resolve_step [] results"

text \<open>
  Modelled from the spec: the defensive offset check (section 7) that a span has to
  pass to reach the Rewriter, \<^verbatim>\<open>0 <= start < end <= len(text)\<close>.
\<close>

definition in_bounds :: "string \<Rightarrow> RecognizerResult \<Rightarrow> bool" where
  "in_bounds text r = (0 \<le> start r \<and> start r < end' r \<and> end' r \<le> int (length text))"

text \<open>
  Modelled from the spec: the Rewriter (section 4.4), which splices the placeholder of
  each span into the text, the spans taken in descending order of their start. A
  category without a placeholder is a failed lookup in the PlaceholderMap.
\<close>

fun rewrite :: "(string \<rightharpoonup> string) \<Rightarrow> string \<Rightarrow> RecognizerResult list \<Rightarrow> exc + string" where
  "rewrite ops text [] = Inr text"
| "rewrite ops text (r # rs) =
     (case ops (entity_type r) of
        None \<Rightarrow> Inl KeyError
      | Some new_value \<Rightarrow>
          rewrite ops (take (nat (start r)) text @ new_value @ drop (nat (end' r)) text) rs)"

text \<open>
  Modelled from the spec: \<^verbatim>\<open>AnonymizerEngine.anonymize\<close> of the presidio library,
  absent from the sources, as the Conflict Resolver followed by the Rewriter of sections
  4.3, 4.4 and 7.
\<close>

definition spec_anonymize :: engine where
  "spec_anonymize text results ops =
     rewrite ops text (rev (filter (in_bounds text) (resolve results)))"

section \<open>Notions used in the statements\<close>

text \<open>
  A response of the external service that adds no span to those of the patterns: a
  status code other than 200, an evaluation that raises an exception which
  \<^verbatim>\<open>except Exception\<close> catches, or an empty list.
\<close>

definition contributes_nothing :: "post_outcome \<Rightarrow> bool" where
  "contributes_nothing response =
     (case response of
        Raised e \<Rightarrow> False
      | Response status_code body \<Rightarrow>
          status_code \<noteq> 200 \<or>
          (case body of Raises e \<Rightarrow> is_Exception e | Value names \<Rightarrow> names = []))"

text \<open>
  The order that sorts by start and, among equal starts, puts the higher score first.
\<close>

definition ties_by_score :: "RecognizerResult list \<Rightarrow> bool" where
  "ties_by_score rs =
     successively (\<lambda>a b. start a < start b \<or> (start a = start b \<and> score b \<le> score a)) rs"

section \<open>Running the model\<close>

text \<open>
  Equations that let the simplifier run a match the way the program does: numerals
  instead of successors, the equations of the matcher applied to all arguments, and
  congruence rules that keep the text and the continuation of a matcher untouched
  until the matcher hands them on.
\<close>

lemma rep_min_numeral:
  "rep_min (numeral j) m p cs k = m p cs (\<lambda>p' cs'. rep_min (pred_numeral j) m p' cs' k)"
  by (simp add: numeral_eq_Suc)

lemma rep_max_numeral:
  "rep_max (numeral j) m p cs k =
     (case m p cs (\<lambda>p' cs'. if p' = p then None else rep_max (pred_numeral j) m p' cs' k) of
        Some r \<Rightarrow> Some r
      | None \<Rightarrow> k p cs)"
  by (simp add: numeral_eq_Suc)

lemma char_at_numeral: "char_at (c # t) (numeral j) = char_at t (pred_numeral j)"
  by (simp add: numeral_eq_Suc)

lemma word_code_eval:
  "word_code n = (if n \<le> 57 then 48 \<le> n else if n \<le> 90 then 65 \<le> n
                  else if n \<le> 122 then 97 \<le> n \<or> n = 95
                  else if n < 192 then n \<in> {170, 178, 179, 181, 185, 186, 188, 189, 190}
                  else n \<noteq> 215 \<and> n \<noteq> 247)"
  by (auto simp: word_code_def digit_code_def)

lemma space_code_eval:
  "space_code n = (if n \<le> 32 then (9 \<le> n \<and> n \<le> 13) \<or> 28 \<le> n else n = 133 \<or> n = 160)"
  by (auto simp: space_code_def)

lemma rmatch_Cls: "rmatch ic t n (Cls items) p cs k =
     (case char_at t p of
       None \<Rightarrow> None
     | Some c \<Rightarrow> if in_class ic items c then k (p + 1) cs else None)"
  by simp

lemma rmatch_WordB: "rmatch ic t n WordB p cs k = (if at_boundary t p then k p cs else None)"
  by simp

lemma rmatch_Cat_Nil: "rmatch ic t n (Cat []) p cs k = k p cs"
  by simp

lemma rmatch_Cat_Cons: "rmatch ic t n (Cat (r # rs)) p cs k =
    rmatch ic t n r p cs (\<lambda>p' cs'. rmatch ic t n (Cat rs) p' cs' k)"
  by simp

lemma rmatch_Alt_Nil: "rmatch ic t n (Alt []) p cs k = None"
  by simp

lemma rmatch_Alt_Cons: "rmatch ic t n (Alt (r # rs)) p cs k =
    (case rmatch ic t n r p cs k of Some x \<Rightarrow> Some x | None \<Rightarrow> rmatch ic t n (Alt rs) p cs k)"
  by (simp split: option.split)

lemma rmatch_Rep: "rmatch ic t n (Rep lo hi r) p cs k =
     rep_min lo (rmatch ic t n r) p cs (\<lambda>p' cs'.
       rep_max (case hi of None \<Rightarrow> n - p' | Some h \<Rightarrow> h - lo) (rmatch ic t n r) p' cs' k)"
  by simp

lemma rmatch_Grp: "rmatch ic t n (Grp g r) p cs k =
     rmatch ic t n r p cs (\<lambda>p' cs'. k p' ((g, p, p') # cs'))"
  by simp

lemma rmatch_NLook: "rmatch ic t n (NLook r) p cs k =
     (case rmatch ic t n r p cs (\<lambda>p' cs'. Some (p', cs')) of
       Some _ \<Rightarrow> None
     | None \<Rightarrow> k p cs)"
  by simp

lemmas rmatch_applied = rmatch_Cls rmatch_WordB rmatch_Cat_Nil rmatch_Cat_Cons rmatch_Alt_Nil rmatch_Alt_Cons
  rmatch_Rep rmatch_Grp rmatch_NLook

lemma rmatch_cong: "r = r' \<Longrightarrow> p = p' \<Longrightarrow> cs = cs' \<Longrightarrow> rmatch ic t n r p cs k = rmatch ic t n r' p' cs' k"
  by simp

lemma rep_min_cong: "j = j' \<Longrightarrow> p = p' \<Longrightarrow> cs = cs' \<Longrightarrow> rep_min j m p cs k = rep_min j' m p' cs' k"
  by simp

lemma rep_max_cong: "j = j' \<Longrightarrow> p = p' \<Longrightarrow> cs = cs' \<Longrightarrow> rep_max j m p cs k = rep_max j' m p' cs' k"
  by simp

lemma char_at_cong: "p = p' \<Longrightarrow> char_at t p = char_at t p'"
  by simp

lemma word_at_cong: "p = p' \<Longrightarrow> word_at t p = word_at t p'"
  by simp

lemma at_boundary_cong: "p = p' \<Longrightarrow> at_boundary t p = at_boundary t p'"
  by simp

lemma match_at_cong: "r = r' \<Longrightarrow> p = p' \<Longrightarrow> match_at ic t n r b p = match_at ic t n r' b p'"
  by simp

lemma matches_here_cong: "r = r' \<Longrightarrow> p = p' \<Longrightarrow> matches_here ic t n r p = matches_here ic t n r' p'"
  by simp

lemma search_here_cong: "r = r' \<Longrightarrow> nxt = nxt' \<Longrightarrow> p = p' \<Longrightarrow> search_here ic t n r nxt p = search_here ic t n r' nxt' p'"
  by simp

lemmas lazy = rmatch_cong rep_min_cong rep_max_cong char_at_cong
  word_at_cong at_boundary_cong match_at_cong matches_here_cong search_here_cong

lemmas run_regex = rmatch_applied rep_min_numeral rep_max_numeral char_at_numeral match_at_def matches_here_def
  search_here_def finditer_def scan.simps word_at_def
  at_boundary_def in_class_def digit_code_def space_code_eval word_code_eval is_space_def swapcase_def code_def Ch_def Rng_def
  lit_def opt_def many_def many1_def exactly_def digit_def space_def upper_def lower_def letter_def phone_sep_def

lemmas patterns = phone_patterns_def postal_pattern_def email_pattern_def address_pattern_def
  person_pattern_def name_pattern_def name_indicators_def


subsection \<open>The recognizers on the texts of the examples\<close>

lemmas run_recognizers = patterns match_result_def CustomRecognizer_analyze_def
  PhoneNumberRecognizer_analyze_def PostalCodeRecognizer_analyze_def rule_result_def
  rule_results_def

lemma rules_phone_text: "rule_results ''0612345678'' = Inr []"
  by (simp del: rmatch.simps add: run_regex run_recognizers cong: lazy)

lemma email_phone_text: "CustomRecognizer_analyze ''EMAIL_ADDRESS'' email_pattern ''0612345678'' = []"
  by (simp del: rmatch.simps add: run_regex run_recognizers cong: lazy)

lemma address_phone_text: "CustomRecognizer_analyze ''ADDRESS'' address_pattern ''0612345678'' = []"
  by (simp del: rmatch.simps add: run_regex run_recognizers cong: lazy)

lemma phone_phone_text:
  "PhoneNumberRecognizer_analyze ''0612345678'' =
     [\<lparr>entity_type = ''PHONE_NUMBER'', start = 0, end' = 10, score = 85 / 100\<rparr>,
      \<lparr>entity_type = ''PHONE_NUMBER'', start = 0, end' = 10, score = 85 / 100\<rparr>,
      \<lparr>entity_type = ''PHONE_NUMBER'', start = 0, end' = 10, score = 85 / 100\<rparr>,
      \<lparr>entity_type = ''PHONE_NUMBER'', start = 0, end' = 10, score = 85 / 100\<rparr>]"
  by (simp del: rmatch.simps add: run_regex run_recognizers cong: lazy)

lemma postal_phone_text: "PostalCodeRecognizer_analyze ''0612345678'' = []"
  by (simp del: rmatch.simps add: run_regex run_recognizers cong: lazy)

lemma rules_meneer: "rule_results ''meneer Jan'' =
   Inr [\<lparr>entity_type = ''PERSON'', start = 7, end' = 10, score = 7 / 10\<rparr>]"
  by (simp del: rmatch.simps add: run_regex run_recognizers cong: lazy)

lemma others_meneer:
  "CustomRecognizer_analyze ''EMAIL_ADDRESS'' email_pattern ''meneer Jan'' = []"
  "CustomRecognizer_analyze ''ADDRESS'' address_pattern ''meneer Jan'' = []"
  "PhoneNumberRecognizer_analyze ''meneer Jan'' = []"
  "PostalCodeRecognizer_analyze ''meneer Jan'' = []"
  by (simp_all del: rmatch.simps add: run_regex run_recognizers cong: lazy)

lemma rules_address: "rule_results ''meneer Kalverstraat 12'' =
   Inr [\<lparr>entity_type = ''PERSON'', start = 7, end' = 19, score = 7 / 10\<rparr>]"
  by (simp del: rmatch.simps add: run_regex run_recognizers cong: lazy)

lemma others_address:
  "CustomRecognizer_analyze ''EMAIL_ADDRESS'' email_pattern ''meneer Kalverstraat 12'' = []"
  "CustomRecognizer_analyze ''ADDRESS'' address_pattern ''meneer Kalverstraat 12'' =
     [\<lparr>entity_type = ''ADDRESS'', start = 7, end' = 22, score = 85 / 100\<rparr>]"
  "PhoneNumberRecognizer_analyze ''meneer Kalverstraat 12'' = []"
  "PostalCodeRecognizer_analyze ''meneer Kalverstraat 12'' = []"
  by (simp_all del: rmatch.simps add: run_regex run_recognizers cong: lazy)

lemma rules_bel: "rule_results ''Bel 0612345678 of mail test@example.com.'' = Inr []"
  by (simp del: rmatch.simps add: run_regex run_recognizers cong: lazy)

lemma person_bel:
  "CustomRecognizer_analyze ''PERSON'' person_pattern ''Bel 0612345678 of mail test@example.com.'' =
     [\<lparr>entity_type = ''PERSON'', start = 0, end' = 3, score = 85 / 100\<rparr>]"
  by (simp del: rmatch.simps add: run_regex run_recognizers cong: lazy)

lemma email_bel:
  "CustomRecognizer_analyze ''EMAIL_ADDRESS'' email_pattern ''Bel 0612345678 of mail test@example.com.'' =
     [\<lparr>entity_type = ''EMAIL_ADDRESS'', start = 23, end' = 39, score = 85 / 100\<rparr>]"
  by (simp del: rmatch.simps add: run_regex run_recognizers cong: lazy)

lemma address_bel:
  "CustomRecognizer_analyze ''ADDRESS'' address_pattern ''Bel 0612345678 of mail test@example.com.'' = []"
  by (simp del: rmatch.simps add: run_regex run_recognizers cong: lazy)

lemma phone_bel:
  "PhoneNumberRecognizer_analyze ''Bel 0612345678 of mail test@example.com.'' =
     [\<lparr>entity_type = ''PHONE_NUMBER'', start = 4, end' = 14, score = 85 / 100\<rparr>,
      \<lparr>entity_type = ''PHONE_NUMBER'', start = 4, end' = 14, score = 85 / 100\<rparr>,
      \<lparr>entity_type = ''PHONE_NUMBER'', start = 4, end' = 14, score = 85 / 100\<rparr>,
      \<lparr>entity_type = ''PHONE_NUMBER'', start = 4, end' = 14, score = 85 / 100\<rparr>]"
  by (simp del: rmatch.simps add: run_regex run_recognizers cong: lazy)

lemma postal_bel:
  "PostalCodeRecognizer_analyze ''Bel 0612345678 of mail test@example.com.'' = []"
  by (simp del: rmatch.simps add: run_regex run_recognizers cong: lazy)


section \<open>Properties of the merge loop\<close>

lemma merge_loop_snoc: "merge_loop (xs @ [x]) = merge_step (merge_loop xs) x"
  by (simp add: merge_loop_def)

lemma separated_snoc:
  "separated (xs @ [y]) \<longleftrightarrow> separated xs \<and> (xs = [] \<or> end' (last xs) < start y)"
  by (cases xs rule: rev_cases) (auto simp: separated_def successively_append_iff)





lemma merge_loop_id: "separated xs \<Longrightarrow> merge_loop xs = xs"
proof (induction xs rule: rev_induct)
  case Nil
  show ?case by (simp add: merge_loop_def)
next
  case (snoc x xs)
  then show ?case
    by (auto simp: merge_loop_snoc separated_snoc merge_step_def)
qed

lemma merge_overlapping_id:
  "sorted (map start xs) \<Longrightarrow> separated xs \<Longrightarrow> merge_overlapping xs = xs"
  by (simp add: merge_overlapping_def sort_key_id_if_sorted merge_loop_id)


text \<open>
  C1. Merge correctness: the two overlapping spans of one category,
  (0, 10, 0.7) and (5, 15, 0.9), are merged into the single span (0, 15, 0.9).
\<close>

theorem merge_two_overlapping:
  "merge_overlapping
     [\<lparr>entity_type = c, start = 0, end' = 10, score = 7 / 10\<rparr>,
      \<lparr>entity_type = c, start = 5, end' = 15, score = 9 / 10\<rparr>]
   = [\<lparr>entity_type = c, start = 0, end' = 15, score = 9 / 10\<rparr>]"
  by (simp add: merge_overlapping_def merge_loop_def merge_step_def)


section \<open>The pipelines on the texts of the examples\<close>

lemma with_ollama_nothing:
  "contributes_nothing response \<Longrightarrow> with_ollama response results = Inr results"
  by (auto simp: contributes_nothing_def with_ollama_def split: post_outcome.splits eval_outcome.splits)

lemma try_analyze_eq:
  "try_analyze response text =
     (case Hybrid_analyze response text of
        Inl e \<Rightarrow> Inl e
      | Inr persons \<Rightarrow>
          Inr (sort_key start
                 (persons @ CustomRecognizer_analyze ''EMAIL_ADDRESS'' email_pattern text @
                  CustomRecognizer_analyze ''ADDRESS'' address_pattern text @
                  PhoneNumberRecognizer_analyze text @ PostalCodeRecognizer_analyze text)))"
  by (simp add: try_analyze_def try_recognizers_def split: sum.split)

lemma anon_analyze_eq:
  "anon_analyze text =
     sort_key start
       (CustomRecognizer_analyze ''PERSON'' person_pattern text @
        CustomRecognizer_analyze ''EMAIL_ADDRESS'' email_pattern text @
        CustomRecognizer_analyze ''ADDRESS'' address_pattern text @
        PhoneNumberRecognizer_analyze text @ PostalCodeRecognizer_analyze text)"
  by (simp add: anon_analyze_def anon_recognizers_def)

lemmas run_text = strip_def preprocess_text_def is_space_def space_code_eval code_def


lemma preprocess_meneer: "preprocess_text ''meneer Jan'' = ''meneer Jan''"
  by (simp add: run_text)

lemma preprocess_bel:
  "preprocess_text ''Bel 0612345678 of mail test@example.com.'' =
     ''Bel 0612345678 of mail test@example.com.''"
  by (simp add: run_text)

lemmas run_merge = merge_overlapping_def merge_loop_def merge_step_def

lemmas run_try = try_analyze_eq Hybrid_analyze_def with_ollama_def is_Exception_def
  detect_sensitive_info_def analyzer_results_def rewriter_input_def try_anonymize_text_def

lemmas run_engine = registration_def rank_def surviving_def resolve_step_def resolve_def
  in_bounds_def spec_anonymize_def operators_def

lemma hybrid_nothing:
  "contributes_nothing response \<Longrightarrow>
   Hybrid_analyze response text =
     (case rule_results text of Inl e \<Rightarrow> Inl e | Inr results \<Rightarrow> Inr (merge_overlapping results))"
  by (simp add: Hybrid_analyze_def with_ollama_nothing split: sum.split)

section \<open>What reaches the rewriting step\<close>



text \<open>
  C5 as stated fails: two spans that touch, (0, 5) and (5, 10), satisfy the invariant
  of a resolved span set and are in ascending order, and the merge loop joins them.
\<close>

theorem merge_joins_touching_spans:
  "non_overlapping
     [\<lparr>entity_type = ''PERSON'', start = 0, end' = 5, score = 7 / 10\<rparr>,
      \<lparr>entity_type = ''PERSON'', start = 5, end' = 10, score = 7 / 10\<rparr>] \<and>
   sorted (map start
     [\<lparr>entity_type = ''PERSON'', start = 0, end' = 5, score = 7 / 10\<rparr>,
      \<lparr>entity_type = ''PERSON'', start = 5, end' = 10, score = 7 / 10\<rparr>]) \<and>
   merge_overlapping
     [\<lparr>entity_type = ''PERSON'', start = 0, end' = 5, score = 7 / 10\<rparr>,
      \<lparr>entity_type = ''PERSON'', start = 5, end' = 10, score = 7 / 10\<rparr>] =
     [\<lparr>entity_type = ''PERSON'', start = 0, end' = 10, score = 7 / 10\<rparr>]"
  by (simp add: run_merge non_overlapping_def)

text \<open>
  C5, amended. The merge loop returns its input unchanged whenever the input is in
  ascending order of start and each span ends strictly before the next one starts.
\<close>

theorem merge_idempotent_on_separated:
  "sorted (map start results) \<Longrightarrow> separated results \<Longrightarrow> merge_overlapping results = results"
  by (simp add: merge_overlapping_def sort_key_id_if_sorted merge_loop_id)

theorem merge_idempotent_on_separated_witness:
  "sorted (map start
     [\<lparr>entity_type = ''PERSON'', start = 0, end' = 5, score = 7 / 10\<rparr>,
      \<lparr>entity_type = ''PERSON'', start = 6, end' = 10, score = 9 / 10\<rparr>]) \<and>
   separated
     [\<lparr>entity_type = ''PERSON'', start = 0, end' = 5, score = 7 / 10\<rparr>,
      \<lparr>entity_type = ''PERSON'', start = 6, end' = 10, score = 9 / 10\<rparr>] \<and>
   merge_overlapping
     [\<lparr>entity_type = ''PERSON'', start = 0, end' = 5, score = 7 / 10\<rparr>,
      \<lparr>entity_type = ''PERSON'', start = 6, end' = 10, score = 9 / 10\<rparr>] =
     [\<lparr>entity_type = ''PERSON'', start = 0, end' = 5, score = 7 / 10\<rparr>,
      \<lparr>entity_type = ''PERSON'', start = 6, end' = 10, score = 9 / 10\<rparr>]"
  using merge_idempotent_on_separated
    [of "[\<lparr>entity_type = ''PERSON'', start = 0, end' = 5, score = 7 / 10\<rparr>,
          \<lparr>entity_type = ''PERSON'', start = 6, end' = 10, score = 9 / 10\<rparr>]"]
  by (simp add: separated_def)

text \<open>
  C7 as stated fails: a candidate of the external response with start 50 and end 2, on
  a text of ten characters, is handed to the engine as it came; nothing checks it and
  nothing drops it.
\<close>

theorem unchecked_candidate_reaches_rewriter:
  "rewriter_input (Response 200 (Value [Candidate 50 2 None])) ''meneer Jan'' =
     Inr [\<lparr>entity_type = ''PERSON'', start = 7, end' = 10, score = 85 / 100\<rparr>,
          \<lparr>entity_type = ''PERSON'', start = 50, end' = 2, score = 85 / 100\<rparr>] \<and>
   \<not> in_bounds (preprocess_text ''meneer Jan'')
         \<lparr>entity_type = ''PERSON'', start = 50, end' = 2, score = 85 / 100\<rparr>"
  by (simp add: run_try run_merge preprocess_meneer rules_meneer others_meneer in_bounds_def)

section \<open>Failures of the external call\<close>

text \<open>
  C3: when the service is unreachable, \<^verbatim>\<open>requests.post\<close> raises outside any
  \<^verbatim>\<open>try\<close>, and \<open>detect_sensitive_info\<close> on \<^verbatim>\<open>0612345678\<close> ends with that exception
  instead of returning the phone number. With an answer of status 503 the same call
  returns the PHONE_NUMBER spans at offsets 0 to 10.
\<close>

theorem unreachable_collaborator_escapes:
  "detect_sensitive_info (Raised ConnectionError) ''0612345678'' = Inl ConnectionError \<and>
   detect_sensitive_info (Response 503 body) ''0612345678'' =
     Inr [(''PHONE_NUMBER'', 0, 10), (''PHONE_NUMBER'', 0, 10),
          (''PHONE_NUMBER'', 0, 10), (''PHONE_NUMBER'', 0, 10)]"
  by (simp add: run_try run_merge rules_phone_text email_phone_text
      address_phone_text phone_phone_text postal_phone_text)

text \<open>
  C4: the response is evaluated by \<^verbatim>\<open>eval\<close>. A response whose evaluation raises
  \<^verbatim>\<open>SystemExit\<close> (the text \<^verbatim>\<open>exit()\<close>) is not caught by \<^verbatim>\<open>except Exception\<close> and
  leaves the recognizer as an exception; one that raises \<^verbatim>\<open>SyntaxError\<close> is swallowed
  and the span of the patterns is returned.
\<close>

theorem eval_exception_escapes:
  "Hybrid_analyze (Response 200 (Raises SystemExit)) ''meneer Jan'' = Inl SystemExit \<and>
   Hybrid_analyze (Response 200 (Raises SyntaxError)) ''meneer Jan'' =
     Inr [\<lparr>entity_type = ''PERSON'', start = 7, end' = 10, score = 7 / 10\<rparr>]"
  by (simp add: run_try run_merge rules_meneer)

section \<open>The order of the aggregated result\<close>

text \<open>
  C8 as stated fails: on \<^verbatim>\<open>meneer Kalverstraat 12\<close> the PERSON span of score 0.7 and
  the ADDRESS span of score 0.85 both start at offset 7, and the PERSON span comes
  first, since its recognizer is registered first.
\<close>

theorem lower_score_first_on_tie:
  "try_analyze (Response 404 (Value [])) ''meneer Kalverstraat 12'' =
     Inr [\<lparr>entity_type = ''PERSON'', start = 7, end' = 19, score = 7 / 10\<rparr>,
          \<lparr>entity_type = ''ADDRESS'', start = 7, end' = 22, score = 85 / 100\<rparr>] \<and>
   \<not> ties_by_score
     [\<lparr>entity_type = ''PERSON'', start = 7, end' = 19, score = 7 / 10\<rparr>,
      \<lparr>entity_type = ''ADDRESS'', start = 7, end' = 22, score = 85 / 100\<rparr>]"
  by (simp add: run_try run_merge rules_address others_address ties_by_score_def)

section \<open>End to end\<close>

text \<open>
  C6 as stated fails for anon.py: its PERSON pattern matches the capitalised word
  \<^verbatim>\<open>Bel\<close>, which is replaced as well.
\<close>

theorem anon_replaces_bel:
  "anon_anonymize_text spec_anonymize ''Bel 0612345678 of mail test@example.com.'' =
     Inr ''<PERSOON> <TELEFOON> of mail <E-MAIL>.'' \<and>
   anon_anonymize_text spec_anonymize ''Bel 0612345678 of mail test@example.com.'' \<noteq>
     Inr ''Bel <TELEFOON> of mail <E-MAIL>.''"
  by (simp add: anon_anonymize_text_def anon_analyze_eq person_bel email_bel address_bel phone_bel
      postal_bel run_engine strip_def is_space_def space_code_eval code_def)

text \<open>
  C6, amended. \<open>try_anonymize_text\<close> returns \<^verbatim>\<open>Bel <TELEFOON> of mail <E-MAIL>.\<close> on
  the text of the scenario whenever the external service answers and contributes no
  span.
\<close>

theorem try_end_to_end:
  assumes "contributes_nothing response"
  shows "try_anonymize_text spec_anonymize response ''Bel 0612345678 of mail test@example.com.'' =
     Inr ''Bel <TELEFOON> of mail <E-MAIL>.''"
proof -
  have "Hybrid_analyze response ''Bel 0612345678 of mail test@example.com.'' = Inr []"
    using assms by (simp add: hybrid_nothing rules_bel run_merge)
  then show ?thesis
    by (simp add: try_anonymize_text_def rewriter_input_def detect_sensitive_info_def
        analyzer_results_def try_analyze_eq preprocess_bel email_bel address_bel phone_bel
        postal_bel run_engine)
qed

theorem try_end_to_end_witness:
  "contributes_nothing (Response 200 (Value [])) \<and>
   try_anonymize_text spec_anonymize (Response 200 (Value []))
     ''Bel 0612345678 of mail test@example.com.'' = Inr ''Bel <TELEFOON> of mail <E-MAIL>.''"
  using try_end_to_end [of "Response 200 (Value [])"] by (simp add: contributes_nothing_def)



end
